theory Spec2Isabelle
  imports Complex_Main
begin

section \<open>Data model\<close>

text \<open>
  The ledger of the banking API: accounts, transactions, credits and payment schedules,
  as the Go structs of \<^verbatim>\<open>internal/model\<close> and the tables of \<^verbatim>\<open>migrations\<close> have them.

  Conventions of the embedding.
  \<^item> Money (\<^verbatim>\<open>float64\<close> in Go, \<^verbatim>\<open>DECIMAL(15,2)\<close> in the tables) is an exact rational:
    neither binary rounding nor the rounding of the column type is represented.
  \<^item> A \<^verbatim>\<open>uuid.UUID\<close> is a natural number; the results of \<^verbatim>\<open>uuid.New()\<close>, of
    \<^verbatim>\<open>time.Now()\<close>, of the central bank's rate service and of the database driver
    (a call may fail for reasons outside the program) are inputs, collected in \<open>env\<close>.
  \<^item> The bookkeeping columns \<^verbatim>\<open>created_at\<close> and \<^verbatim>\<open>updated_at\<close> are left out.
  \<^item> A table is the list of its rows, in insertion order.
\<close>

type_synonym uuid = nat
type_synonym time = int

datatype TransactionType =
    TransactionTypeTransfer
  | TransactionTypeDeposit
  | TransactionTypeWithdrawal
  | TransactionTypeCredit
  | TransactionTypeCreditPayment
  | TransactionTypeCardPayment

record Account =
  AccID :: uuid
  AccUserID :: uuid
  Balance :: rat
  Currency :: string

record Transaction =
  TxID :: uuid
  TxAccountID :: uuid
  TxAmount :: rat
  TxType :: TransactionType
  ReferenceID :: "uuid option"

record Credit =
  CrID :: uuid
  CrAccountID :: uuid
  CrUserID :: uuid
  CrAmount :: rat
  InterestRate :: rat
  TermMonths :: int
  MonthlyPayment :: rat
  StartDate :: time
  EndDate :: time
  CrStatus :: string

record PaymentSchedule =
  PsID :: uuid
  CreditID :: uuid
  PaymentNumber :: int
  PaymentDate :: time
  PsAmount :: rat
  Principal :: rat
  Interest :: rat
  PsStatus :: string
  PaidAt :: "time option"

record CreateCreditRequest =
  ReqAccountID :: uuid
  ReqAmount :: rat
  ReqTermMonths :: int


text \<open>The committed contents of the database (\<^verbatim>\<open>*sql.DB\<close>).\<close>

record store =
  accounts :: "Account list"
  transactions :: "Transaction list"
  credits :: "Credit list"
  payment_schedules :: "PaymentSchedule list"

text \<open>
  An open transaction (\<^verbatim>\<open>*sql.Tx\<close>): its own view of the two tables that the code
  writes through a transaction handle. \<open>Commit\<close> publishes the view; dropping it is
  the deferred \<^verbatim>\<open>tx.Rollback()\<close>.
\<close>

record txn =
  tx_accounts :: "Account list"
  tx_transactions :: "Transaction list"

text \<open>The statements the code sends to the database, as places where the driver may fail.\<close>

datatype db_call =
    SelectAccount uuid
  | SelectAccountForUpdate uuid
  | InsertAccount
  | BeginTxCall
  | UpdateBalance uuid
  | InsertTransaction uuid
  | CommitCall
  | InsertCredit
  | InsertSchedule int
  | SelectCredit uuid
  | SelectSchedule uuid
  | SelectPending
  | SelectPayment uuid
  | UpdateStatus uuid
  | UpdateCredit uuid

record env =
  fails :: "db_call \<Rightarrow> bool"
  new_uuid :: "nat \<Rightarrow> uuid"
  now :: time
  cbr_rate :: "rat option"
  add_months :: "time \<Rightarrow> int \<Rightarrow> time"

text \<open>One constructor for each error message the repositories and services return.\<close>

datatype error =
    ErrAmountNotPositive
  | ErrAccountNotFound
  | ErrAccountExists
  | ErrFailedToCreateAccount
  | ErrFailedToGetAccount
  | ErrNotOwner
  | ErrInsufficientFunds
  | ErrOnlyRUB
  | ErrBeginTx
  | ErrFailedToUpdateBalance
  | ErrFailedToCreateTransaction
  | ErrCommit
  | ErrFailedToCreateCredit
  | ErrFailedToCreateSchedule
  | ErrCreditNotFound
  | ErrFailedToGetCredit
  | ErrFailedToQuerySchedule
  | ErrFailedToQueryPending
  | ErrPaymentNotFound
  | ErrFailedToUpdatePaymentStatus
  | ErrFailedToUpdateCreditStatus
  | ErrPaymentTooSmall
  | ErrNoPendingPayments
  | ErrNotFinite

section \<open>Repositories\<close>

subsection \<open>AccountRepository\<close>


text \<open>\<^verbatim>\<open>GetByID\<close>: a plain read of the committed table, outside any transaction.\<close>

definition GetByID :: "env \<Rightarrow> store \<Rightarrow> uuid \<Rightarrow> error + Account" where
  "GetByID e db aid =
     (if fails e (SelectAccount aid) then Inl ErrFailedToGetAccount
      else (case find (\<lambda>a. AccID a = aid) (accounts db) of
             None \<Rightarrow> Inl ErrAccountNotFound
           | Some a \<Rightarrow> Inr a))"

text \<open>\<^verbatim>\<open>GetByIDForUpdate\<close>: the locked read inside a transaction; every error has one message.\<close>

definition GetByIDForUpdate :: "env \<Rightarrow> txn \<Rightarrow> uuid \<Rightarrow> error + Account" where
  "GetByIDForUpdate e tx aid =
     (if fails e (SelectAccountForUpdate aid) then Inl ErrFailedToGetAccount
      else (case find (\<lambda>a. AccID a = aid) (tx_accounts tx) of
             None \<Rightarrow> Inl ErrFailedToGetAccount
           | Some a \<Rightarrow> Inr a))"

text \<open>
  \<^verbatim>\<open>UpdateBalanceTx\<close>: \<^verbatim>\<open>UPDATE accounts SET balance = balance + $1 WHERE id = $2\<close>.
  The statement fails when a row it changes would break \<^verbatim>\<open>CHECK (balance >= 0)\<close>;
  when it changes no row, the function reports that the account is missing.
\<close>

definition UpdateBalanceTx :: "env \<Rightarrow> txn \<Rightarrow> uuid \<Rightarrow> rat \<Rightarrow> error + txn" where
  "UpdateBalanceTx e tx aid amount =
     (if fails e (UpdateBalance aid) then Inl ErrFailedToUpdateBalance
      else if list_ex (\<lambda>a. AccID a = aid \<and> Balance a + amount < 0) (tx_accounts tx)
        then Inl ErrFailedToUpdateBalance
      else if \<not> list_ex (\<lambda>a. AccID a = aid) (tx_accounts tx) then Inl ErrAccountNotFound
      else Inr (tx\<lparr>tx_accounts :=
                  map (\<lambda>a. if AccID a = aid then a\<lparr>Balance := Balance a + amount\<rparr> else a)
                      (tx_accounts tx)\<rparr>))"

text \<open>\<^verbatim>\<open>db.BeginTx\<close> and \<^verbatim>\<open>tx.Commit\<close>.\<close>

definition BeginTx :: "env \<Rightarrow> store \<Rightarrow> error + txn" where
  "BeginTx e db =
     (if fails e BeginTxCall then Inl ErrBeginTx
      else Inr \<lparr>tx_accounts = accounts db, tx_transactions = transactions db\<rparr>)"

definition Commit :: "env \<Rightarrow> store \<Rightarrow> txn \<Rightarrow> error + store" where
  "Commit e db tx =
     (if fails e CommitCall then Inl ErrCommit
      else Inr (db\<lparr>accounts := tx_accounts tx, transactions := tx_transactions tx\<rparr>))"

subsection \<open>TransactionRepository\<close>

text \<open>
  \<^verbatim>\<open>CreateTx\<close>: the insert into \<^verbatim>\<open>transactions\<close>, with the table's \<^verbatim>\<open>CHECK (amount > 0)\<close>,
  its primary key and its foreign key to \<^verbatim>\<open>accounts\<close>.
\<close>

definition CreateTx :: "env \<Rightarrow> txn \<Rightarrow> Transaction \<Rightarrow> error + txn" where
  "CreateTx e tx transaction =
     (if fails e (InsertTransaction (TxID transaction)) then Inl ErrFailedToCreateTransaction
      else if TxAmount transaction \<le> 0 then Inl ErrFailedToCreateTransaction
      else if list_ex (\<lambda>t. TxID t = TxID transaction) (tx_transactions tx)
        then Inl ErrFailedToCreateTransaction
      else if \<not> list_ex (\<lambda>a. AccID a = TxAccountID transaction) (tx_accounts tx)
        then Inl ErrFailedToCreateTransaction
      else Inr (tx\<lparr>tx_transactions := tx_transactions tx @ [transaction]\<rparr>))"

section \<open>AccountService\<close>




text \<open>
  \<^verbatim>\<open>Withdraw\<close>, in the two parts the Go function has: the checks, made on an account
  read with \<open>GetByID\<close> before any transaction exists, and the transaction that follows.
  Between the two parts another request may commit; \<open>Withdraw\<close> itself runs them back
  to back on one store.
\<close>

definition Withdraw_checks :: "env \<Rightarrow> store \<Rightarrow> uuid \<Rightarrow> rat \<Rightarrow> uuid \<Rightarrow> error + unit" where
  "Withdraw_checks e db accountID amount userID =
     (if amount \<le> 0 then Inl ErrAmountNotPositive
      else (case GetByID e db accountID of
        Inl err \<Rightarrow> Inl err
      | Inr account \<Rightarrow>
      if AccUserID account \<noteq> userID then Inl ErrNotOwner
      else if Balance account < amount then Inl ErrInsufficientFunds
      else if Currency account \<noteq> ''RUB'' then Inl ErrOnlyRUB
      else Inr ()))"

definition Withdraw_tx :: "env \<Rightarrow> store \<Rightarrow> uuid \<Rightarrow> rat \<Rightarrow> (error + unit) \<times> store" where
  "Withdraw_tx e db accountID amount =
     (case BeginTx e db of
        Inl err \<Rightarrow> (Inl err, db)
      | Inr tx0 \<Rightarrow>
      (case UpdateBalanceTx e tx0 accountID (- amount) of
        Inl err \<Rightarrow> (Inl err, db)
      | Inr tx1 \<Rightarrow>
      let transferID = new_uuid e 0;
          transaction = \<lparr>TxID = new_uuid e 1, TxAccountID = accountID, TxAmount = amount,
             TxType = TransactionTypeWithdrawal, ReferenceID = Some transferID\<rparr>
      in (case CreateTx e tx1 transaction of
        Inl err \<Rightarrow> (Inl err, db)
      | Inr tx2 \<Rightarrow>
      (case Commit e db tx2 of
        Inl err \<Rightarrow> (Inl err, db)
      | Inr db' \<Rightarrow> (Inr (), db')))))"


subsection \<open>CreditRepository\<close>

text \<open>
  Every function of this repository sends its statement through \<^verbatim>\<open>r.db\<close>, the
  connection pool, never through a transaction handle: what it writes is committed at
  once. The inserts check the primary key and the foreign key of their table.
\<close>

definition repo_CreateCredit :: "env \<Rightarrow> store \<Rightarrow> Credit \<Rightarrow> error + store" where
  "repo_CreateCredit e db credit =
     (if fails e InsertCredit then Inl ErrFailedToCreateCredit
      else if list_ex (\<lambda>c. CrID c = CrID credit) (credits db) then Inl ErrFailedToCreateCredit
      else if \<not> list_ex (\<lambda>a. AccID a = CrAccountID credit) (accounts db)
        then Inl ErrAccountNotFound
      else Inr (db\<lparr>credits := credits db @ [credit]\<rparr>))"

definition GetCreditByID :: "env \<Rightarrow> store \<Rightarrow> uuid \<Rightarrow> error + Credit" where
  "GetCreditByID e db cid =
     (if fails e (SelectCredit cid) then Inl ErrFailedToGetCredit
      else (case find (\<lambda>c. CrID c = cid) (credits db) of
             None \<Rightarrow> Inl ErrCreditNotFound
           | Some c \<Rightarrow> Inr c))"

definition CreatePaymentSchedule :: "env \<Rightarrow> store \<Rightarrow> PaymentSchedule \<Rightarrow> error + store" where
  "CreatePaymentSchedule e db schedule =
     (if fails e (InsertSchedule (PaymentNumber schedule)) then Inl ErrFailedToCreateSchedule
      else if list_ex (\<lambda>p. PsID p = PsID schedule) (payment_schedules db)
        then Inl ErrFailedToCreateSchedule
      else if \<not> list_ex (\<lambda>c. CrID c = CreditID schedule) (credits db)
        then Inl ErrFailedToCreateSchedule
      else Inr (db\<lparr>payment_schedules := payment_schedules db @ [schedule]\<rparr>))"

definition GetPaymentSchedule :: "env \<Rightarrow> store \<Rightarrow> uuid \<Rightarrow> error + PaymentSchedule list" where
  "GetPaymentSchedule e db creditID =
     (if fails e (SelectSchedule creditID) then Inl ErrFailedToQuerySchedule
      else Inr (sort_key PaymentNumber
                  (filter (\<lambda>p. CreditID p = creditID) (payment_schedules db))))"


definition UpdatePaymentStatus ::
  "env \<Rightarrow> store \<Rightarrow> uuid \<Rightarrow> string \<Rightarrow> time option \<Rightarrow> error + store" where
  "UpdatePaymentStatus e db paymentID status paidAt =
     (if fails e (UpdateStatus paymentID) then Inl ErrFailedToUpdatePaymentStatus
      else Inr (db\<lparr>payment_schedules :=
                  map (\<lambda>p. if PsID p = paymentID then p\<lparr>PsStatus := status, PaidAt := paidAt\<rparr>
                           else p)
                      (payment_schedules db)\<rparr>))"

definition UpdateCreditStatus :: "env \<Rightarrow> store \<Rightarrow> uuid \<Rightarrow> string \<Rightarrow> error + store" where
  "UpdateCreditStatus e db creditID status =
     (if fails e (UpdateCredit creditID) then Inl ErrFailedToUpdateCreditStatus
      else Inr (db\<lparr>credits :=
                  map (\<lambda>c. if CrID c = creditID then c\<lparr>CrStatus := status\<rparr> else c)
                      (credits db)\<rparr>))"


section \<open>CreditService\<close>

text \<open>
  \<^verbatim>\<open>math.Pow\<close> at an integer exponent, and the annuity payment. Where the
  \<^verbatim>\<open>float64\<close> result is infinite or not a number (a zero divisor) there is no rational
  to return: the result is \<open>None\<close>.
\<close>

definition Pow :: "rat \<Rightarrow> int \<Rightarrow> rat option" where
  "Pow x n =
     (if 0 \<le> n then Some (x ^ nat n)
      else if x = 0 then None
      else Some (1 / x ^ nat (- n)))"

definition CalculateMonthlyPayment :: "rat \<Rightarrow> int \<Rightarrow> rat \<Rightarrow> rat option" where
  "CalculateMonthlyPayment amount termMonths interestRate =
     (let monthlyRate = interestRate / 12 / 100
      in (case Pow (1 + monthlyRate) termMonths of
           None \<Rightarrow> None
         | Some pw \<Rightarrow>
             if pw - 1 = 0 then None
             else Some (amount * ((monthlyRate * pw) / (pw - 1)))))"

text \<open>
  The loop of \<^verbatim>\<open>generatePaymentSchedule\<close>, \<^verbatim>\<open>for i := 1; i <= credit.TermMonths; i++\<close>,
  with its two loop variables \<open>i\<close> and \<open>remainingPrincipal\<close>. Each row is inserted
  through \<open>CreatePaymentSchedule\<close>; the first failed insert ends the loop.
\<close>

function schedule_loop ::
  "env \<Rightarrow> Credit \<Rightarrow> rat \<Rightarrow> int \<Rightarrow> rat \<Rightarrow> store \<Rightarrow> (error + unit) \<times> store" where
  "schedule_loop e credit monthlyRate i remainingPrincipal db =
     (if i \<le> TermMonths credit then
        let interest = remainingPrincipal * monthlyRate;
            principal = (if i = TermMonths credit then remainingPrincipal
                         else MonthlyPayment credit - interest);
            schedule = \<lparr>PsID = new_uuid e (nat i), CreditID = CrID credit,
               PaymentNumber = i, PaymentDate = add_months e (StartDate credit) i,
               PsAmount = MonthlyPayment credit, Principal = principal,
               Interest = interest, PsStatus = ''pending'', PaidAt = None\<rparr>
        in case CreatePaymentSchedule e db schedule of
             Inl err \<Rightarrow> (Inl err, db)
           | Inr db' \<Rightarrow>
               schedule_loop e credit monthlyRate (i + 1) (remainingPrincipal - principal) db'
      else (Inr (), db))"
  by pat_completeness auto
termination
  by (relation "measure (\<lambda>(e, credit, monthlyRate, i, remainingPrincipal, db).
                   nat (TermMonths credit + 1 - i))") auto

declare schedule_loop.simps [simp del]

definition generatePaymentSchedule :: "env \<Rightarrow> store \<Rightarrow> Credit \<Rightarrow> (error + unit) \<times> store" where
  "generatePaymentSchedule e db credit =
     schedule_loop e credit (InterestRate credit / 12 / 100) 1 (CrAmount credit) db"

text \<open>
  \<^verbatim>\<open>CreateCredit\<close>. The balance update and the transaction entry go through the
  transaction handle; the credit row and the schedule rows go through the repository's
  own connection. \<^verbatim>\<open>uuid.New()\<close> number 0 is the credit's key, numbers 1 to
  \<^verbatim>\<open>TermMonths\<close> the schedule rows' keys, the next one the transaction entry's key.
\<close>

definition CreateCredit ::
  "env \<Rightarrow> store \<Rightarrow> CreateCreditRequest \<Rightarrow> uuid \<Rightarrow> (error + Credit) \<times> store" where
  "CreateCredit e db req userID =
     (case GetByID e db (ReqAccountID req) of
        Inl err \<Rightarrow> (Inl err, db)
      | Inr account \<Rightarrow>
      if AccUserID account \<noteq> userID then (Inl ErrNotOwner, db)
      else
      let rate = (case cbr_rate e of None \<Rightarrow> 22 | Some r \<Rightarrow> r);
          interestRate = rate + 5
      in (case CalculateMonthlyPayment (ReqAmount req) (ReqTermMonths req) interestRate of
        None \<Rightarrow> (Inl ErrNotFinite, db)
      | Some monthlyPayment \<Rightarrow>
      let credit = \<lparr>CrID = new_uuid e 0, CrAccountID = ReqAccountID req, CrUserID = userID,
             CrAmount = ReqAmount req, InterestRate = interestRate,
             TermMonths = ReqTermMonths req, MonthlyPayment = monthlyPayment,
             StartDate = now e, EndDate = add_months e (now e) (ReqTermMonths req),
             CrStatus = ''active''\<rparr>
      in (case BeginTx e db of
        Inl err \<Rightarrow> (Inl err, db)
      | Inr tx0 \<Rightarrow>
      (case UpdateBalanceTx e tx0 (ReqAccountID req) (ReqAmount req) of
        Inl err \<Rightarrow> (Inl err, db)
      | Inr tx1 \<Rightarrow>
      (case repo_CreateCredit e db credit of
        Inl err \<Rightarrow> (Inl err, db)
      | Inr db1 \<Rightarrow>
      (case generatePaymentSchedule e db1 credit of
        (Inl err, db2) \<Rightarrow> (Inl err, db2)
      | (Inr u, db2) \<Rightarrow>
      let transaction = \<lparr>TxID = new_uuid e (nat (ReqTermMonths req) + 1),
             TxAccountID = ReqAccountID req, TxAmount = ReqAmount req,
             TxType = TransactionTypeCredit, ReferenceID = Some (CrID credit)\<rparr>
      in (case CreateTx e tx1 transaction of
        Inl err \<Rightarrow> (Inl err, db2)
      | Inr tx2 \<Rightarrow>
      (case Commit e db2 tx2 of
        Inl err \<Rightarrow> (Inl err, db2)
      | Inr db3 \<Rightarrow> (Inr credit, db3)))))))))"

text \<open>
  \<^verbatim>\<open>processPayment\<close>, the settlement of one schedule entry. The account is read and
  debited through the transaction handle; the entry's status and the credit's status
  are written through the repository's own connection. On success the result is the
  local \<^verbatim>\<open>status\<close>, on which the Go code decides whether to notify the borrower.
\<close>

definition allPaid :: "PaymentSchedule list \<Rightarrow> PaymentSchedule \<Rightarrow> bool" where
  "allPaid remainingPayments payment =
     (\<not> list_ex (\<lambda>p. PsStatus p \<noteq> ''paid'' \<and> PsID p \<noteq> PsID payment) remainingPayments)"

definition processPayment ::
  "env \<Rightarrow> store \<Rightarrow> PaymentSchedule \<Rightarrow> (error + string) \<times> store" where
  "processPayment e db payment =
     (case GetCreditByID e db (CreditID payment) of
        Inl err \<Rightarrow> (Inl err, db)
      | Inr credit \<Rightarrow>
      (case BeginTx e db of
        Inl err \<Rightarrow> (Inl err, db)
      | Inr tx0 \<Rightarrow>
      (case GetByIDForUpdate e tx0 (CrAccountID credit) of
        Inl err \<Rightarrow> (Inl err, db)
      | Inr account \<Rightarrow>
      (case (if Balance account \<ge> PsAmount payment then
              (case UpdateBalanceTx e tx0 (AccID account) (- PsAmount payment) of
                 Inl err \<Rightarrow> Inl err
               | Inr tx1 \<Rightarrow> Inr (tx1, ''paid'', Some (now e), 0))
            else Inr (tx0, ''overdue'', None, PsAmount payment * (1 / 10))) of
        Inl err \<Rightarrow> (Inl err, db)
      | Inr (tx1, status, paidAt, penalty) \<Rightarrow>
      (case UpdatePaymentStatus e db (PsID payment) status paidAt of
        Inl err \<Rightarrow> (Inl err, db)
      | Inr db1 \<Rightarrow>
      (case (if status = ''paid'' then
              (case GetPaymentSchedule e db1 (CrID credit) of
                 Inl err \<Rightarrow> Inl err
               | Inr remainingPayments \<Rightarrow>
                   if allPaid remainingPayments payment
                   then UpdateCreditStatus e db1 (CrID credit) ''paid''
                   else Inr db1)
            else Inr db1) of
        Inl err \<Rightarrow> (Inl err, db1)
      | Inr db2 \<Rightarrow>
      let transaction = \<lparr>TxID = new_uuid e 0, TxAccountID = AccID account,
             TxAmount = PsAmount payment + penalty,
             TxType = TransactionTypeCreditPayment, ReferenceID = Some (PsID payment)\<rparr>
      in (case CreateTx e tx1 transaction of
        Inl err \<Rightarrow> (Inl err, db2)
      | Inr tx2 \<Rightarrow>
      (case Commit e db2 tx2 of
        Inl err \<Rightarrow> (Inl err, db2)
      | Inr db3 \<Rightarrow> (Inr status, db3)))))))))"





section \<open>CreditHandler\<close>

text \<open>
  The two handlers, after the request body is decoded and the caller is identified.
  The result is the HTTP status code. Neither handler, nor anything it calls, reads the
  \<^verbatim>\<open>validate\<close> tags of the request structs.
\<close>

definition handler_CreateCredit ::
  "env \<Rightarrow> store \<Rightarrow> CreateCreditRequest \<Rightarrow> uuid \<Rightarrow> nat \<times> store" where
  "handler_CreateCredit e db req userUUID =
     (case CreateCredit e db req userUUID of
        (Inl err, db') \<Rightarrow> (400, db')
      | (Inr credit, db') \<Rightarrow> (201, db'))"



section \<open>Notions used in the statements\<close>

text \<open>The schedule rows that a run added to the table.\<close>

definition new_schedules :: "store \<Rightarrow> store \<Rightarrow> PaymentSchedule list" where
  "new_schedules db db' = drop (length (payment_schedules db)) (payment_schedules db')"

text \<open>The balance that a read of the account table finds for an account.\<close>

definition balance_of :: "store \<Rightarrow> uuid \<Rightarrow> rat option" where
  "balance_of db aid = map_option Balance (find (\<lambda>a. AccID a = aid) (accounts db))"

text \<open>The effect of the balance update on one row.\<close>

definition add_balance :: "uuid \<Rightarrow> rat \<Rightarrow> Account \<Rightarrow> Account" where
  "add_balance aid amount a = (if AccID a = aid then a\<lparr>Balance := Balance a + amount\<rparr> else a)"



text \<open>No account of the store has a negative balance.\<close>

definition nonneg :: "store \<Rightarrow> bool" where
  "nonneg db = list_all (\<lambda>a. 0 \<le> Balance a) (accounts db)"

text \<open>The same, of the accounts as an open transaction sees them.\<close>

definition tx_nonneg :: "txn \<Rightarrow> bool" where
  "tx_nonneg tx = list_all (\<lambda>a. 0 \<le> Balance a) (tx_accounts tx)"





text \<open>
  The installments that a scheduler run debited: those whose settlement ended without
  error on the paid path. And the identifiers of the entries still pending in a store.
\<close>

definition charged :: "(uuid \<times> (error + string)) list \<Rightarrow> uuid list" where
  "charged outcomes = map fst (filter (\<lambda>r. snd r = Inr ''paid'') outcomes)"

definition pending_ids :: "store \<Rightarrow> uuid set" where
  "pending_ids db =
     set (map PsID (filter (\<lambda>q. PsStatus q = ''pending'') (payment_schedules db)))"

section \<open>Example inputs\<close>

text \<open>
  An environment in which no database call fails, the rate service is down and the
  generated identifiers are 100, 101, ...; a credit of 600 at 12 percent over six months
  whose monthly payment is the annuity rounded to the cent; a store with two accounts.
\<close>

definition env0 :: env where
  "env0 = \<lparr>fails = (\<lambda>c. False), new_uuid = (\<lambda>n. 100 + n), now = 0, cbr_rate = None,
           add_months = (\<lambda>t n. t + 30 * n)\<rparr>"

definition credit0 :: Credit where
  "credit0 = \<lparr>CrID = 10, CrAccountID = 1, CrUserID = 7, CrAmount = 600, InterestRate = 12,
     TermMonths = 6, MonthlyPayment = 10353 / 100, StartDate = 0, EndDate = 180,
     CrStatus = ''active''\<rparr>"

definition db0 :: store where
  "db0 = \<lparr>accounts = [\<lparr>AccID = 1, AccUserID = 7, Balance = 100, Currency = ''RUB''\<rparr>,
                   \<lparr>AccID = 2, AccUserID = 8, Balance = 50, Currency = ''RUB''\<rparr>],
     transactions = [], credits = [credit0], payment_schedules = []\<rparr>"

text \<open>
  The store after the schedule of that credit has been generated; its first installment;
  and the same store with account 1 holding 1000.
\<close>

definition db_sched :: store where
  "db_sched = snd (generatePaymentSchedule env0 db0 credit0)"

definition payment1 :: PaymentSchedule where
  "payment1 = \<lparr>PsID = 101, CreditID = 10, PaymentNumber = 1, PaymentDate = 30,
     PsAmount = 10353 / 100, Principal = 9753 / 100, Interest = 6, PsStatus = ''pending'',
     PaidAt = None\<rparr>"

definition db_funded :: store where
  "db_funded = db_sched\<lparr>accounts :=
     [\<lparr>AccID = 1, AccUserID = 7, Balance = 1000, Currency = ''RUB''\<rparr>,
      \<lparr>AccID = 2, AccUserID = 8, Balance = 50, Currency = ''RUB''\<rparr>]\<rparr>"

text \<open>
  A second environment, whose generated identifiers start at 200, and the funded store
  after the first installment has been settled and paid.
\<close>

definition env1 :: env where
  "env1 = env0\<lparr>new_uuid := (\<lambda>n. 200 + n)\<rparr>"

definition db_paid :: store where
  "db_paid = snd (processPayment env0 db_funded payment1)"

text \<open>The two environments at a time when only the first installment is due.\<close>

definition env_due :: env where
  "env_due = env0\<lparr>now := 45\<rparr>"

definition env_due1 :: env where
  "env_due1 = env1\<lparr>now := 45\<rparr>"

section \<open>The generated schedule\<close>

lemma CreatePaymentSchedule_Inr:
  "CreatePaymentSchedule e db s = Inr db' \<Longrightarrow>
   db' = db\<lparr>payment_schedules := payment_schedules db @ [s]\<rparr>"
  by (simp add: CreatePaymentSchedule_def split: if_splits)

text \<open>
  What the loop has appended when it ends without error, entered at month \<open>i\<close> with
  \<open>rp\<close> still to repay: one row for each month from \<open>i\<close> to the term, whose
  principal parts add up to \<open>rp\<close>.
\<close>

lemma schedule_loop_rows:
  "schedule_loop e credit mr i rp db = (Inr (), db') \<Longrightarrow>
   \<exists>rows. db' = db\<lparr>payment_schedules := payment_schedules db @ rows\<rparr> \<and>
     length rows = nat (TermMonths credit + 1 - i) \<and>
     (i \<le> TermMonths credit \<longrightarrow>
        sum_list (map Principal rows) = rp \<and>
        Interest (last rows) = Principal (last rows) * mr) \<and>
     (\<forall>r \<in> set (butlast rows). Principal r + Interest r = PsAmount r) \<and>
     (\<forall>r \<in> set rows. PsAmount r = MonthlyPayment credit \<and> PsStatus r = ''pending'' \<and>
        CreditID r = CrID credit \<and> PaidAt r = None) \<and>
     map PaymentNumber rows = [i..TermMonths credit]"
proof (induction e credit mr i rp db rule: schedule_loop.induct)
  case (1 e credit mr i rp db)
  show ?case
  proof (cases "i \<le> TermMonths credit")
    case False
    with "1.prems" have "db' = db" by (simp add: schedule_loop.simps)
    with False show ?thesis by (intro exI[of _ "[]"]) simp
  next
    case True
    define interest where "interest = rp * mr"
    define principal where
      "principal = (if i = TermMonths credit then rp else MonthlyPayment credit - interest)"
    define row where "row = \<lparr>PsID = new_uuid e (nat i), CreditID = CrID credit,
               PaymentNumber = i, PaymentDate = add_months e (StartDate credit) i,
               PsAmount = MonthlyPayment credit, Principal = principal,
               Interest = interest, PsStatus = ''pending'', PaidAt = None\<rparr>"
    from "1.prems" True obtain db1 where
      ins: "CreatePaymentSchedule e db row = Inr db1" and
      rest: "schedule_loop e credit mr (i + 1) (rp - principal) db1 = (Inr (), db')"
      unfolding row_def principal_def interest_def
      by (subst (asm) schedule_loop.simps) (auto simp: Let_def split: sum.splits)
    have db1: "db1 = db\<lparr>payment_schedules := payment_schedules db @ [row]\<rparr>"
      using ins by (rule CreatePaymentSchedule_Inr)
    from "1.IH"[OF True interest_def principal_def row_def ins rest]
    obtain rows where
      r1: "db' = db1\<lparr>payment_schedules := payment_schedules db1 @ rows\<rparr>" and
      r2: "length rows = nat (TermMonths credit + 1 - (i + 1))" and
      r3: "i + 1 \<le> TermMonths credit \<longrightarrow>
        sum_list (map Principal rows) = rp - principal \<and>
        Interest (last rows) = Principal (last rows) * mr" and
      r4: "\<forall>r \<in> set (butlast rows). Principal r + Interest r = PsAmount r" and
      r5: "\<forall>r \<in> set rows. PsAmount r = MonthlyPayment credit \<and> PsStatus r = ''pending'' \<and>
        CreditID r = CrID credit \<and> PaidAt r = None" and
      r6: "map PaymentNumber rows = [i + 1..TermMonths credit]"
      by blast
    show ?thesis
    proof (cases "i = TermMonths credit")
      case True
      with r2 have "rows = []" by simp
      with r1 db1 True show ?thesis
        by (intro exI[of _ "[row]"]) (simp add: row_def principal_def interest_def)
    next
      case False
      with True have lt: "i + 1 \<le> TermMonths credit" by simp
      with r2 have ne: "rows \<noteq> []" by auto
      have pr: "Principal row + Interest row = PsAmount row"
        using False by (simp add: row_def principal_def)
      have up: "[i..TermMonths credit] = i # [i + 1..TermMonths credit]"
        using True by (simp add: upto_rec1)
      show ?thesis
        using r1 r2 r3 r4 r5 r6 lt ne pr db1 up True
        by (intro exI[of _ "row # rows"]) (auto simp: row_def)
    qed
  qed
qed

lemma sum_list_butlast_last:
  fixes f :: "'a \<Rightarrow> rat"
  assumes "rows \<noteq> []"
  shows "sum_list (map f rows) = sum_list (map f (butlast rows)) + f (last rows)"
proof -
  have "rows = butlast rows @ [last rows]" using assms by simp
  then have "map f rows = map f (butlast rows) @ [f (last rows)]"
    by (metis list.simps(8,9) map_append)
  then show ?thesis by simp
qed

lemma generatePaymentSchedule_rows:
  assumes "generatePaymentSchedule e db credit = (Inr (), db')"
  shows "db' = db\<lparr>payment_schedules := payment_schedules db @ new_schedules db db'\<rparr>"
    and "length (new_schedules db db') = nat (TermMonths credit)"
    and "1 \<le> TermMonths credit \<Longrightarrow>
           sum_list (map Principal (new_schedules db db')) = CrAmount credit"
    and "1 \<le> TermMonths credit \<Longrightarrow>
           Interest (last (new_schedules db db')) =
             Principal (last (new_schedules db db')) * (InterestRate credit / 12 / 100)"
    and "\<forall>r \<in> set (butlast (new_schedules db db')). Principal r + Interest r = PsAmount r"
    and "\<forall>r \<in> set (new_schedules db db'). PsAmount r = MonthlyPayment credit \<and>
           PsStatus r = ''pending'' \<and> CreditID r = CrID credit \<and> PaidAt r = None"
    and "map PaymentNumber (new_schedules db db') = [1..TermMonths credit]"
proof -
  from schedule_loop_rows[OF assms[unfolded generatePaymentSchedule_def]]
  obtain rows where
    r1: "db' = db\<lparr>payment_schedules := payment_schedules db @ rows\<rparr>" and
    r2: "length rows = nat (TermMonths credit + 1 - 1)" and
    r3: "1 \<le> TermMonths credit \<longrightarrow>
        sum_list (map Principal rows) = CrAmount credit \<and>
        Interest (last rows) = Principal (last rows) * (InterestRate credit / 12 / 100)" and
    r4: "\<forall>r \<in> set (butlast rows). Principal r + Interest r = PsAmount r" and
    r5: "\<forall>r \<in> set rows. PsAmount r = MonthlyPayment credit \<and> PsStatus r = ''pending'' \<and>
        CreditID r = CrID credit \<and> PaidAt r = None" and
    r6: "map PaymentNumber rows = [1..TermMonths credit]"
    by blast
  have n: "new_schedules db db' = rows" using r1 by (simp add: new_schedules_def)
  show "db' = db\<lparr>payment_schedules := payment_schedules db @ new_schedules db db'\<rparr>"
    unfolding n by (rule r1)
  show "length (new_schedules db db') = nat (TermMonths credit)"
    unfolding n using r2 by simp
  show "1 \<le> TermMonths credit \<Longrightarrow>
           sum_list (map Principal (new_schedules db db')) = CrAmount credit"
    unfolding n using r3 by simp
  show "1 \<le> TermMonths credit \<Longrightarrow>
           Interest (last (new_schedules db db')) =
             Principal (last (new_schedules db db')) * (InterestRate credit / 12 / 100)"
    unfolding n using r3 by simp
  show "\<forall>r \<in> set (butlast (new_schedules db db')). Principal r + Interest r = PsAmount r"
    unfolding n by (rule r4)
  show "\<forall>r \<in> set (new_schedules db db'). PsAmount r = MonthlyPayment credit \<and>
           PsStatus r = ''pending'' \<and> CreditID r = CrID credit \<and> PaidAt r = None"
    unfolding n by (rule r5)
  show "map PaymentNumber (new_schedules db db') = [1..TermMonths credit]"
    unfolding n by (rule r6)
qed

lemma generate0_ok: "fst (generatePaymentSchedule env0 db0 credit0) = Inr ()"
  by code_simp

section \<open>The repository calls, when they succeed\<close>

lemma add_balance_eq:
  "(\<lambda>a. if AccID a = aid then a\<lparr>Balance := Balance a + amount\<rparr> else a) = add_balance aid amount"
  by (rule ext) (simp add: add_balance_def)

lemma BeginTx_Inr:
  "BeginTx e db = Inr tx \<longleftrightarrow>
   \<not> fails e BeginTxCall \<and> tx = \<lparr>tx_accounts = accounts db, tx_transactions = transactions db\<rparr>"
  by (auto simp: BeginTx_def)

lemma Commit_Inr:
  "Commit e db tx = Inr db' \<longleftrightarrow>
   \<not> fails e CommitCall \<and>
   db' = db\<lparr>accounts := tx_accounts tx, transactions := tx_transactions tx\<rparr>"
  by (auto simp: Commit_def)

lemma UpdateBalanceTx_Inr:
  "UpdateBalanceTx e tx aid amount = Inr tx' \<longleftrightarrow>
   \<not> fails e (UpdateBalance aid) \<and>
   \<not> list_ex (\<lambda>a. AccID a = aid \<and> Balance a + amount < 0) (tx_accounts tx) \<and>
   list_ex (\<lambda>a. AccID a = aid) (tx_accounts tx) \<and>
   tx' = tx\<lparr>tx_accounts := map (add_balance aid amount) (tx_accounts tx)\<rparr>"
  unfolding UpdateBalanceTx_def add_balance_eq by auto

lemma CreateTx_Inr:
  "CreateTx e tx t = Inr tx' \<longleftrightarrow>
   \<not> fails e (InsertTransaction (TxID t)) \<and> 0 < TxAmount t \<and>
   \<not> list_ex (\<lambda>u. TxID u = TxID t) (tx_transactions tx) \<and>
   list_ex (\<lambda>a. AccID a = TxAccountID t) (tx_accounts tx) \<and>
   tx' = tx\<lparr>tx_transactions := tx_transactions tx @ [t]\<rparr>"
  unfolding CreateTx_def by auto

lemma AccID_add_balance [simp]: "AccID (add_balance aid amount a) = AccID a"
  by (simp add: add_balance_def)

lemma find_map_add_balance:
  "find (\<lambda>a. AccID a = z) (map (add_balance aid amount) xs) =
   map_option (add_balance aid amount) (find (\<lambda>a. AccID a = z) xs)"
  by (induction xs) simp_all

lemma list_ex_map_add_balance [simp]:
  "list_ex (\<lambda>a. AccID a = z) (map (add_balance aid amount) xs) = list_ex (\<lambda>a. AccID a = z) xs"
  by (induction xs) simp_all




section \<open>AccountService: the outcomes of Transfer\<close>


section \<open>CreditService: the outcomes of one settlement\<close>






lemma GetPaymentSchedule_Inr:
  "GetPaymentSchedule e db cid = Inr ps \<longleftrightarrow>
   \<not> fails e (SelectSchedule cid) \<and>
   ps = sort_key PaymentNumber (filter (\<lambda>p. CreditID p = cid) (payment_schedules db))"
  unfolding GetPaymentSchedule_def by auto

lemma find_AccID: "find (\<lambda>a. AccID a = aid) xs = Some a \<Longrightarrow> AccID a = aid \<and> a \<in> set xs"
  by (auto simp: find_Some_iff)



section \<open>Balances stay non-negative\<close>

lemma nonneg_add_balance:
  assumes "list_all (\<lambda>a. 0 \<le> Balance a) xs"
    and "\<not> list_ex (\<lambda>a. AccID a = aid \<and> Balance a + amount < 0) xs"
  shows "list_all (\<lambda>a. 0 \<le> Balance a) (map (add_balance aid amount) xs)"
  using assms by (induction xs) (auto simp: add_balance_def)

lemma BeginTx_nonneg: "BeginTx e db = Inr tx \<Longrightarrow> nonneg db \<Longrightarrow> tx_nonneg tx"
  by (simp add: BeginTx_Inr nonneg_def tx_nonneg_def)

lemma UpdateBalanceTx_nonneg:
  "UpdateBalanceTx e tx aid amount = Inr tx' \<Longrightarrow> tx_nonneg tx \<Longrightarrow> tx_nonneg tx'"
  by (simp add: UpdateBalanceTx_Inr nonneg_add_balance tx_nonneg_def)

lemma CreateTx_nonneg: "CreateTx e tx t = Inr tx' \<Longrightarrow> tx_nonneg tx \<Longrightarrow> tx_nonneg tx'"
  by (simp add: CreateTx_Inr tx_nonneg_def)

lemma Commit_nonneg: "Commit e db tx = Inr db' \<Longrightarrow> tx_nonneg tx \<Longrightarrow> nonneg db'"
  by (simp add: Commit_Inr nonneg_def tx_nonneg_def)

lemmas tx_nonneg = Commit_nonneg CreateTx_nonneg UpdateBalanceTx_nonneg BeginTx_nonneg





lemma Withdraw_tx_nonneg:
  assumes "nonneg db"
  shows "nonneg (snd (Withdraw_tx e db x amount))"
proof -
  have "nonneg db'" if "Withdraw_tx e db x amount = (r, db')" for r db'
    using that assms unfolding Withdraw_tx_def Let_def
    by (auto split: if_splits sum.splits; blast intro: tx_nonneg)
  then show ?thesis by (metis prod.collapse)
qed







lemma nonneg_accounts_eq: "accounts db' = accounts db \<Longrightarrow> nonneg db \<Longrightarrow> nonneg db'"
  by (simp add: nonneg_def)











section \<open>AccountService: the outcomes of the transaction of Withdraw\<close>

lemma Withdraw_tx_cases:
  assumes "Withdraw_tx e db x amount = (r, db')"
  shows "(\<exists>err. r = Inl err \<and> db' = db) \<or>
     (r = Inr () \<and>
      \<not> list_ex (\<lambda>a. AccID a = x \<and> Balance a + - amount < 0) (accounts db) \<and>
      db' = db\<lparr>accounts := map (add_balance x (- amount)) (accounts db),
               transactions := transactions db @
                 [\<lparr>TxID = new_uuid e 1, TxAccountID = x, TxAmount = amount,
                   TxType = TransactionTypeWithdrawal, ReferenceID = Some (new_uuid e 0)\<rparr>]\<rparr>)"
  using assms unfolding Withdraw_tx_def Let_def
  by (auto split: if_splits sum.splits
           simp: BeginTx_Inr Commit_Inr UpdateBalanceTx_Inr CreateTx_Inr)

lemma Withdraw_tx_overdraw:
  assumes "find (\<lambda>a. AccID a = x) (accounts db) = Some a" and "Balance a < amount"
  shows "Withdraw_tx e db x amount =
     (Inl (if fails e BeginTxCall then ErrBeginTx else ErrFailedToUpdateBalance), db)"
proof -
  from assms(1) have "a \<in> set (accounts db)" "AccID a = x" by (auto dest: find_AccID)
  with assms(2) have "list_ex (\<lambda>a. AccID a = x \<and> Balance a + - amount < 0) (accounts db)"
    by (auto simp: list_ex_iff)
  then show ?thesis
    by (simp add: Withdraw_tx_def BeginTx_def UpdateBalanceTx_def)
qed

section \<open>Claims\<close>

text \<open>
  Claim C6. For a credit of principal P and a term T between 6 and 60 months, whatever
  its rate, a schedule generation that ends without error has added exactly T rows; the
  principal parts of the T rows add up to P exactly; and the last row's principal part is
  the principal still to repay before that row, that is P less the principal parts of
  the rows before it. (Amounts are exact rationals here.)
\<close>

theorem amortization_exact:
  assumes "generatePaymentSchedule e db credit = (Inr (), db')"
    and "6 \<le> TermMonths credit" and "TermMonths credit \<le> 60"
  shows "payment_schedules db' = payment_schedules db @ new_schedules db db' \<and>
     int (length (new_schedules db db')) = TermMonths credit \<and>
     sum_list (map Principal (new_schedules db db')) = CrAmount credit \<and>
     Principal (last (new_schedules db db')) =
       CrAmount credit - sum_list (map Principal (butlast (new_schedules db db')))"
proof -
  note r = generatePaymentSchedule_rows[OF assms(1)]
  have one: "1 \<le> TermMonths credit" using assms(2) by simp
  from r(2) assms(2) have ne: "new_schedules db db' \<noteq> []" by auto
  have a: "payment_schedules db' = payment_schedules db @ new_schedules db db'"
    by (subst r(1)) simp
  have b: "int (length (new_schedules db db')) = TermMonths credit"
    using r(2) assms(2) by simp
  have s: "sum_list (map Principal (new_schedules db db')) = CrAmount credit"
    using r(3)[OF one] .
  have c: "Principal (last (new_schedules db db')) =
       CrAmount credit - sum_list (map Principal (butlast (new_schedules db db')))"
    using sum_list_butlast_last[OF ne, of Principal] s by simp
  from a b s c show ?thesis by simp
qed

theorem amortization_exact_witness:
  "generatePaymentSchedule env0 db0 credit0 =
     (Inr (), snd (generatePaymentSchedule env0 db0 credit0)) \<and>
   6 \<le> TermMonths credit0 \<and> TermMonths credit0 \<le> 60 \<and>
   int (length (new_schedules db0 (snd (generatePaymentSchedule env0 db0 credit0)))) = 6 \<and>
   sum_list (map Principal (new_schedules db0 (snd (generatePaymentSchedule env0 db0 credit0))))
     = 600"
proof -
  have h: "generatePaymentSchedule env0 db0 credit0 =
     (Inr (), snd (generatePaymentSchedule env0 db0 credit0))"
    using generate0_ok by (metis prod.collapse)
  have t: "6 \<le> TermMonths credit0" "TermMonths credit0 \<le> 60" "CrAmount credit0 = 600"
    "TermMonths credit0 = 6"
    by (simp_all add: credit0_def)
  from amortization_exact[OF h t(1) t(2)] h t show ?thesis by simp
qed














text \<open>
  Claim C5, as the code has it. \<open>Withdraw\<close> compares the balance with the amount on
  the account it read before opening its transaction; inside the transaction it reads
  nothing and compares nothing. What keeps the account from being overdrawn is the
  balance update itself, which the store refuses. Take two withdrawals of one account
  that both passed their checks on the same store, with amounts that the balance covers
  one at a time but not together, and let their transactions run one after the other:
  they do not both succeed; if the first succeeds, the second fails with the error of the
  failed balance update (or of a failed begin) and changes nothing; and no balance is
  negative at any point.
\<close>

theorem racing_withdrawals_not_overdrawn:
  assumes "Withdraw_checks e1 db x a1 u1 = Inr ()"
    and "Withdraw_checks e2 db x a2 u2 = Inr ()"
    and "balance_of db x = Some b" and "b < a1 + a2" and "nonneg db"
    and "Withdraw_tx e1 db x a1 = (r1, db1)"
    and "Withdraw_tx e2 db1 x a2 = (r2, db2)"
  shows "\<not> (r1 = Inr () \<and> r2 = Inr ()) \<and> nonneg db1 \<and> nonneg db2 \<and>
     (r1 = Inr () \<longrightarrow>
        r2 = Inl (if fails e2 BeginTxCall then ErrBeginTx else ErrFailedToUpdateBalance) \<and>
        db2 = db1 \<and> balance_of db2 x = Some (b - a1))"
proof -
  have n1: "nonneg db1" using Withdraw_tx_nonneg[OF assms(5), of e1 x a1] assms(6) by simp
  have n2: "nonneg db2" using Withdraw_tx_nonneg[OF n1, of e2 x a2] assms(7) by simp
  have second: "r2 = Inl (if fails e2 BeginTxCall then ErrBeginTx else ErrFailedToUpdateBalance)
      \<and> db2 = db1 \<and> balance_of db2 x = Some (b - a1)" if ok: "r1 = Inr ()"
  proof -
    from Withdraw_tx_cases[OF assms(6)] ok have
      acc: "accounts db1 = map (add_balance x (- a1)) (accounts db)" by auto
    from assms(3) obtain a where f: "find (\<lambda>a. AccID a = x) (accounts db) = Some a"
      and ba: "Balance a = b" by (auto simp: balance_of_def)
    then have ax: "AccID a = x" by (auto dest: find_AccID)
    have f1: "find (\<lambda>a. AccID a = x) (accounts db1) = Some (add_balance x (- a1) a)"
      unfolding acc find_map_add_balance f by simp
    have lt: "Balance (add_balance x (- a1) a) < a2"
      using assms(4) ba ax by (simp add: add_balance_def)
    have bal: "balance_of db1 x = Some (b - a1)"
      unfolding balance_of_def f1 using ba ax by (simp add: add_balance_def)
    from Withdraw_tx_overdraw[OF f1 lt, of e2] assms(7) bal show ?thesis by simp
  qed
  then have "\<not> (r1 = Inr () \<and> r2 = Inr ())" by auto
  with n1 n2 second show ?thesis by blast
qed

theorem racing_withdrawals_not_overdrawn_witness:
  "Withdraw_checks env0 db0 1 80 7 = Inr () \<and>
   Withdraw_checks env1 db0 1 80 7 = Inr () \<and>
   balance_of db0 1 = Some 100 \<and> (100::rat) < 80 + 80 \<and> nonneg db0 \<and>
   fst (Withdraw_tx env0 db0 1 80) = Inr () \<and>
   fst (Withdraw_tx env1 (snd (Withdraw_tx env0 db0 1 80)) 1 80) = Inl ErrFailedToUpdateBalance \<and>
   balance_of (snd (Withdraw_tx env1 (snd (Withdraw_tx env0 db0 1 80)) 1 80)) 1 = Some 20"
proof -
  have c: "Withdraw_checks env0 db0 1 80 7 = Inr ()" "Withdraw_checks env1 db0 1 80 7 = Inr ()"
    by code_simp+
  have b: "balance_of db0 1 = Some 100" by code_simp
  have n: "nonneg db0" by (simp add: nonneg_def db0_def)
  have l: "(100::rat) < 80 + 80" by simp
  have f: "fst (Withdraw_tx env0 db0 1 80) = Inr ()" by code_simp
  have nf: "\<not> fails env1 BeginTxCall" by (simp add: env1_def env0_def)
  have p1: "Withdraw_tx env0 db0 1 80 =
      (fst (Withdraw_tx env0 db0 1 80), snd (Withdraw_tx env0 db0 1 80))" by simp
  have p2: "Withdraw_tx env1 (snd (Withdraw_tx env0 db0 1 80)) 1 80 =
      (fst (Withdraw_tx env1 (snd (Withdraw_tx env0 db0 1 80)) 1 80),
       snd (Withdraw_tx env1 (snd (Withdraw_tx env0 db0 1 80)) 1 80))" by simp
  from racing_withdrawals_not_overdrawn[OF c b l n p1 p2] f
  have k: "fst (Withdraw_tx env1 (snd (Withdraw_tx env0 db0 1 80)) 1 80) =
          Inl (if fails env1 BeginTxCall then ErrBeginTx else ErrFailedToUpdateBalance)"
    and m: "balance_of (snd (Withdraw_tx env1 (snd (Withdraw_tx env0 db0 1 80)) 1 80)) 1 =
          Some (100 - 80)"
    by blast+
  from k nf have k': "fst (Withdraw_tx env1 (snd (Withdraw_tx env0 db0 1 80)) 1 80) =
          Inl ErrFailedToUpdateBalance"
    by (simp only: if_False)
  from m have m': "balance_of (snd (Withdraw_tx env1 (snd (Withdraw_tx env0 db0 1 80)) 1 80)) 1 =
          Some 20"
    by simp
  from c b n l f k' m' show ?thesis by (intro conjI)
qed

text \<open>
  Claim C5 as stated fails: the comparison is not made inside the transaction. Account
  1 holds 100 and two withdrawals of 80 pass their checks. Once the first has committed
  the balance is 20 and the checks, made now, would refuse the second for insufficient
  funds; the second withdrawal's transaction, which makes no such comparison, is
  stopped only by the store, with the error of a failed balance update.
\<close>

theorem withdraw_check_outside_transaction_counterexample:
  "Withdraw_checks env0 db0 1 80 7 = Inr () \<and>
   Withdraw_checks env1 db0 1 80 7 = Inr () \<and>
   fst (Withdraw_tx env0 db0 1 80) = Inr () \<and>
   balance_of (snd (Withdraw_tx env0 db0 1 80)) 1 = Some 20 \<and>
   Withdraw_checks env1 (snd (Withdraw_tx env0 db0 1 80)) 1 80 7 = Inl ErrInsufficientFunds \<and>
   fst (Withdraw_tx env1 (snd (Withdraw_tx env0 db0 1 80)) 1 80) = Inl ErrFailedToUpdateBalance"
  by code_simp

end
